theory Spec2Isabelle
  imports Main "HOL-Library.Sublist"
begin

section \<open>Path functions of the Python library used by the generators\<close>

text \<open>
  Both scripts are Python 2 programs that compute file names with \<^verbatim>\<open>os.path\<close> (the
  POSIX flavour).  The functions below follow \<^verbatim>\<open>posixpath.py\<close>; text is modelled as
  \<^typ>\<open>string\<close>, one character per byte.
\<close>

definition startswith :: "string \<Rightarrow> string \<Rightarrow> bool" where
  "startswith s p = (take (length p) s = p)"

definition endswith :: "string \<Rightarrow> string \<Rightarrow> bool" where
  "endswith s p = (length p \<le> length s \<and> drop (length s - length p) s = p)"

text \<open>\<^verbatim>\<open>os.path.join(a, b)\<close>: an absolute \<open>b\<close> replaces what came before it.\<close>

definition path_join :: "string \<Rightarrow> string \<Rightarrow> string" where
  "path_join path b =
     (if startswith b ''/'' then b
      else if path = [] \<or> endswith path ''/'' then path @ b
      else path @ ''/'' @ b)"

text \<open>\<^verbatim>\<open>os.path.join(a, *p)\<close> folds the two-argument step over \<open>p\<close> from the left.\<close>

definition path_joins :: "string \<Rightarrow> string list \<Rightarrow> string" where
  "path_joins a p = foldl path_join a p"

text \<open>\<^verbatim>\<open>s.split('/')\<close>\<close>

fun split_on :: "char \<Rightarrow> string \<Rightarrow> string list" where
  "split_on c [] = [[]]"
| "split_on c (x # xs) =
     (if x = c then [] # split_on c xs
      else (case split_on c xs of [] \<Rightarrow> [[x]] | w # ws \<Rightarrow> (x # w) # ws))"

text \<open>\<^verbatim>\<open>'/'.join(comps)\<close>\<close>

fun str_join :: "string \<Rightarrow> string list \<Rightarrow> string" where
  "str_join sep [] = []"
| "str_join sep [x] = x"
| "str_join sep (x # y # ys) = x @ sep @ str_join sep (y # ys)"

text \<open>\<^verbatim>\<open>p[p.rfind('/') + 1:]\<close> and \<^verbatim>\<open>p[:p.rfind('/') + 1]\<close>\<close>

definition basename :: "string \<Rightarrow> string" where
  "basename p = rev (takeWhile (\<lambda>c. c \<noteq> CHR ''/'') (rev p))"

definition rstrip_slash :: "string \<Rightarrow> string" where
  "rstrip_slash s = rev (dropWhile (\<lambda>c. c = CHR ''/'') (rev s))"

definition dirname :: "string \<Rightarrow> string" where
  "dirname p =
     (let head = rev (dropWhile (\<lambda>c. c \<noteq> CHR ''/'') (rev p))
      in if head \<noteq> [] \<and> head \<noteq> replicate (length head) CHR ''/''
         then rstrip_slash head else head)"

text \<open>
  \<^verbatim>\<open>os.path.splitext(p)[0]\<close>: the text before the last dot of the last component,
  unless that component has no dot or only leading dots before it.
\<close>

definition splitext_root :: "string \<Rightarrow> string" where
  "splitext_root p =
     (let tail = basename p;
          ext = rev (takeWhile (\<lambda>c. c \<noteq> CHR ''.'') (rev tail));
          stem = take (length tail - length ext - 1) tail
      in if CHR ''.'' \<in> set tail \<and> (\<exists>c \<in> set stem. c \<noteq> CHR ''.'')
         then take (length p - length ext - 1) p
         else p)"

text \<open>The loop of \<^verbatim>\<open>normpath\<close> over the components, \<open>new\<close> being \<^verbatim>\<open>new_comps\<close>.\<close>

fun norm_comps :: "bool \<Rightarrow> string list \<Rightarrow> string list \<Rightarrow> string list" where
  "norm_comps initial [] new = new"
| "norm_comps initial (name # comps) new =
     (if name = [] \<or> name = ''.'' then norm_comps initial comps new
      else if name \<noteq> ''..'' \<or> (\<not> initial \<and> new = []) \<or> (new \<noteq> [] \<and> last new = ''..'')
        then norm_comps initial comps (new @ [name])
      else if new \<noteq> [] then norm_comps initial comps (butlast new)
      else norm_comps initial comps new)"

definition normpath :: "string \<Rightarrow> string" where
  "normpath path =
     (if path = [] then ''.''
      else
        let initial_slashes =
              (if startswith path ''/''
               then (if startswith path ''//'' \<and> \<not> startswith path ''///'' then 2 else 1)
               else (0::nat));
            comps = norm_comps (initial_slashes \<noteq> 0) (split_on CHR ''/'' path) [];
            p = replicate initial_slashes CHR ''/'' @ str_join ''/'' comps
        in if p = [] then ''.'' else p)"

text \<open>\<^verbatim>\<open>os.path.abspath(path)\<close>, the current directory being \<open>cwd\<close>.\<close>

definition abspath :: "string \<Rightarrow> string \<Rightarrow> string" where
  "abspath cwd path =
     normpath (if startswith path ''/'' then path else path_join cwd path)"

section \<open>Errors, events and outcomes\<close>

text \<open>The exceptions that the two scripts can meet.\<close>

datatype py_error =
    IOError string
  | OSError string
  | ValueError
  | KeyError string
  | TypeError
  | AttributeError
  | CalledProcessError int

text \<open>
  What a run does to the outside world, in order: \<open>Diag config e\<close> is the line
  \<^verbatim>\<open>Failed to parse config <config>, error <e>\<close> on standard output; \<open>Open p\<close> is a call
  \<^verbatim>\<open>open(p, "w")\<close>; \<open>Wrote p text\<close> says that the file opened at \<open>p\<close> ends up holding
  \<open>text\<close>; \<open>MakeDirs p\<close> is a call \<^verbatim>\<open>os.makedirs(p)\<close>; \<open>Exec argv\<close> is the subprocess call.
\<close>

datatype event =
    Diag string py_error
  | Open string
  | Wrote string string
  | MakeDirs string
  | Exec "string list"

record outcome =
  events :: "event list"
  result :: "py_error + int"

text \<open>The text that a trace leaves in the file at \<open>p\<close>: that of the last write to it.\<close>

fun file_written :: "event list \<Rightarrow> string \<Rightarrow> string option" where
  "file_written [] p = None"
| "file_written (e # es) p =
     (case file_written es p of
        Some text \<Rightarrow> Some text
      | None \<Rightarrow> (case e of Wrote q text \<Rightarrow> if q = p then Some text else None | _ \<Rightarrow> None))"

fun is_exec :: "event \<Rightarrow> bool" where
  "is_exec (Exec argv) = True"
| "is_exec _ = False"

section \<open>JSON values as \<^verbatim>\<open>json.load\<close> returns them\<close>

text \<open>
  A JSON object is the Python dict, as an association list read with \<^const>\<open>map_of\<close>;
  a number keeps its literal text, which the scripts never inspect.
\<close>

datatype json =
    JNull
  | JBool bool
  | JNumber string
  | JString string
  | JArray "json list"
  | JObject "(string \<times> json) list"

text \<open>\<^verbatim>\<open>v[k]\<close> for a string key \<open>k\<close>: only a dict can be subscripted with a string.\<close>

fun getitem :: "json \<Rightarrow> string \<Rightarrow> py_error + json" where
  "getitem (JObject kvs) k =
     (case map_of kvs k of None \<Rightarrow> Inl (KeyError k) | Some v \<Rightarrow> Inr v)"
| "getitem v k = Inl TypeError"

text \<open>
  \<^verbatim>\<open>for b in v\<close>: a list yields its elements, a dict its keys, a string its characters;
  anything else is not iterable.
\<close>

fun iter :: "json \<Rightarrow> py_error + json list" where
  "iter (JArray xs) = Inr xs"
| "iter (JObject kvs) = Inr (map (\<lambda>kv. JString (fst kv)) kvs)"
| "iter (JString s) = Inr (map (\<lambda>c. JString [c]) s)"
| "iter v = Inl TypeError"

text \<open>What \<^verbatim>\<open>open(config)\<close> and \<^verbatim>\<open>json.load(f)\<close> find at a path.\<close>

datatype config_file = NoSuchFile | NotJson | Json json

section \<open>gen.py\<close>

text \<open>The dict \<^verbatim>\<open>binary\<close> built at lines 27 to 29, with its two keys.\<close>

record binary_entry =
  binary :: json
  bootfs_path :: json

text \<open>
  The environment of a run: the command line, the script's location, the file system as
  the run finds it, the external generator, and \<^verbatim>\<open>str\<close> on values that are not strings.
\<close>

record world =
  outdir_arg :: string
  script_file :: string
  cwd :: string
  read_config :: "string \<Rightarrow> config_file"
  can_open :: "string \<Rightarrow> bool"
  isdir :: "string \<Rightarrow> bool"
  can_makedirs :: "string \<Rightarrow> bool"
  run_gn :: "string list \<Rightarrow> int option"
  py_str :: "json \<Rightarrow> string"

text \<open>The fixed list of lines 13 to 18.\<close>

definition package_configs :: "string list" where
  "package_configs = [''fortune'', ''ftl'', ''mojo'', ''mtl'']"

text \<open>\<^verbatim>\<open>"%s" % v\<close>\<close>

fun format_s :: "world \<Rightarrow> json \<Rightarrow> string" where
  "format_s w (JString s) = s"
| "format_s w v = py_str w v"

text \<open>
  The loop of lines 26 to 30.  The entries appended before a failing element stay in
  \<open>binaries\<close>, since the handler of line 31 undoes nothing.
\<close>

fun append_binaries :: "json list \<Rightarrow> binary_entry list \<Rightarrow> binary_entry list \<times> py_error option" where
  "append_binaries [] binaries = (binaries, None)"
| "append_binaries (b # bs) binaries =
     (case getitem b ''binary'' of
        Inl e \<Rightarrow> (binaries, Some e)
      | Inr x \<Rightarrow>
          (case getitem b ''bootfs_path'' of
             Inl e \<Rightarrow> (binaries, Some e)
           | Inr y \<Rightarrow> append_binaries bs (binaries @ [\<lparr>binary = x, bootfs_path = y\<rparr>])))"

text \<open>
  The body of the \<^verbatim>\<open>try\<close> on a loaded value \<open>c\<close>: the new \<open>labels\<close> and \<open>binaries\<close>, and
  the exception that ended the block, if one did.
\<close>

definition load_config :: "json \<Rightarrow> json list \<Rightarrow> binary_entry list \<Rightarrow>
    json list \<times> binary_entry list \<times> py_error option" where
  "load_config c labels binaries =
     (case getitem c ''label'' of
        Inl e \<Rightarrow> (labels, binaries, Some e)
      | Inr l \<Rightarrow>
          (case getitem c ''binaries'' of
             Inl e \<Rightarrow> (labels @ [l], binaries, Some e)
           | Inr bs \<Rightarrow>
               (case iter bs of
                  Inl e \<Rightarrow> (labels @ [l], binaries, Some e)
                | Inr items \<Rightarrow>
                    (case append_binaries items binaries of
                       (binaries', err) \<Rightarrow> (labels @ [l], binaries', err)))))"

text \<open>
  \<^verbatim>\<open>parse_config(config, labels, binaries)\<close>.  \<^verbatim>\<open>open\<close> is outside the \<^verbatim>\<open>try\<close>, so a
  missing file is an error of the call; everything else is caught and reported.
\<close>

definition parse_config :: "world \<Rightarrow> string \<Rightarrow> json list \<Rightarrow> binary_entry list \<Rightarrow>
    event list \<times> (py_error + json list \<times> binary_entry list)" where
  "parse_config w config labels binaries =
     (case read_config w config of
        NoSuchFile \<Rightarrow> ([], Inl (IOError config))
      | NotJson \<Rightarrow> ([Diag config ValueError], Inr (labels, binaries))
      | Json c \<Rightarrow>
          (case load_config c labels binaries of
             (labels', binaries', None) \<Rightarrow> ([], Inr (labels', binaries'))
           | (labels', binaries', Some e) \<Rightarrow> ([Diag config e], Inr (labels', binaries'))))"

text \<open>Line 41: the directory of the script.\<close>

definition packages_path :: "world \<Rightarrow> string" where
  "packages_path w = abspath (cwd w) (dirname (script_file w))"

text \<open>The loop of lines 43 and 44 over a list of config names.\<close>

fun collect :: "world \<Rightarrow> string list \<Rightarrow> json list \<Rightarrow> binary_entry list \<Rightarrow>
    event list \<times> (py_error + json list \<times> binary_entry list)" where
  "collect w [] labels binaries = ([], Inr (labels, binaries))"
| "collect w (c # cs) labels binaries =
     (case parse_config w (path_join (packages_path w) c) labels binaries of
        (evs, Inl e) \<Rightarrow> (evs, Inl e)
      | (evs, Inr (labels', binaries')) \<Rightarrow>
          (case collect w cs labels' binaries' of (evs', r) \<Rightarrow> (evs @ evs', r)))"

text \<open>
  \<^verbatim>\<open>with open(p, "w") as f:\<close> around a body that writes \<open>text\<close> and ends with \<open>err\<close>.
  The file is closed with what was written, also when the body raised.
\<close>

definition write_file :: "(string \<Rightarrow> bool) \<Rightarrow> string \<Rightarrow> string \<times> py_error option \<Rightarrow>
    event list \<times> py_error option" where
  "write_file may_open p body =
     (if may_open p then ([Open p, Wrote p (fst body)], snd body)
      else ([Open p], Some (IOError p)))"

text \<open>Sequencing: an exception of a step ends the run, otherwise the rest follows.\<close>

definition seq :: "event list \<times> py_error option \<Rightarrow> outcome \<Rightarrow> outcome" where
  "seq step rest =
     (case snd step of
        Some e \<Rightarrow> \<lparr>events = fst step, result = Inl e\<rparr>
      | None \<Rightarrow> \<lparr>events = fst step @ events rest, result = result rest\<rparr>)"

text \<open>The text of \<^verbatim>\<open>BUILD.gn\<close>, lines 47 to 61.\<close>

definition build_gn_header :: string where
  \<open>build_gn_header =
     ''\<newline># NOTE: This file is auto-generated by gen.py. Do not edit by hand.\<newline>'' @
     ''\<newline>group("default") {\<newline>  testonly = true\<newline>  deps = [\<newline>'' @
     ''    "//packages/mkbootfs",\<newline>''\<close>

definition build_gn_footer :: string where
  "build_gn_footer = ''\<newline>  ]\<newline>}\<newline>''"

fun write_labels :: "world \<Rightarrow> json list \<Rightarrow> string" where
  "write_labels w [] = []"
| \<open>write_labels w (label # labels) =
     (''\<newline>    "'' @ format_s w label @ ''",'') @ write_labels w labels\<close>

definition build_gn_text :: "world \<Rightarrow> json list \<Rightarrow> string" where
  "build_gn_text w labels = build_gn_header @ write_labels w labels @ build_gn_footer"

text \<open>The directories of lines 62 to 64; the current directory is \<open>packages_path\<close> by then.\<close>

definition base_path :: "world \<Rightarrow> string" where
  "base_path w = abspath (packages_path w) (path_join (packages_path w) ''..'')"

definition outdir_path :: "world \<Rightarrow> string" where
  "outdir_path w = path_join (base_path w) (outdir_arg w)"

definition pkg_gen_dir :: "world \<Rightarrow> string" where
  "pkg_gen_dir w = path_joins (outdir_path w) [''gen'', ''packages'', ''mkbootfs'']"

text \<open>The two files of lines 67 and 72.\<close>

definition manifest_path :: "world \<Rightarrow> string" where
  "manifest_path w = path_join (pkg_gen_dir w) ''user.bootfs.manifest''"

definition depfile_path :: "world \<Rightarrow> string" where
  "depfile_path w = path_join (pkg_gen_dir w) ''user.bootfs.d''"

text \<open>Lines 65 and 66.\<close>

definition ensure_dir :: "world \<Rightarrow> string \<Rightarrow> event list \<times> py_error option" where
  "ensure_dir w d =
     (if isdir w d then ([], None)
      else if can_makedirs w d then ([MakeDirs d], None)
      else ([MakeDirs d], Some (OSError d)))"

text \<open>
  The loop of lines 68 to 71: \<^verbatim>\<open>os.path.join\<close> raises on a \<^verbatim>\<open>binary\<close> that is not a
  string, after the lines of the entries before it have been written.
\<close>

fun write_manifest :: "world \<Rightarrow> string \<Rightarrow> binary_entry list \<Rightarrow> string \<times> py_error option" where
  "write_manifest w outdir [] = ([], None)"
| "write_manifest w outdir (b # bs) =
     (case binary b of
        JString s \<Rightarrow>
          (case write_manifest w outdir bs of
             (text, err) \<Rightarrow>
               (format_s w (bootfs_path b) @ ''='' @ path_join outdir s @ ''\<newline>'' @ text, err))
      | _ \<Rightarrow> ([], Some AttributeError))"

text \<open>Lines 73 to 76.\<close>

fun write_deps :: "world \<Rightarrow> binary_entry list \<Rightarrow> string" where
  "write_deps w [] = []"
| "write_deps w (b # bs) = ('' '' @ format_s w (binary b)) @ write_deps w bs"

definition depfile_text :: "world \<Rightarrow> binary_entry list \<Rightarrow> string" where
  "depfile_text w binaries =
     ''user.bootfs: gen/packages/mkbootfs/user.bootfs.manifest'' @ write_deps w binaries @
     ''\<newline>''"

text \<open>Lines 77 to 84: \<^verbatim>\<open>check_call\<close> waits for the subprocess and raises on a status that is
  not zero (or when the program cannot be started); then \<^verbatim>\<open>main\<close> returns 0.\<close>

definition gn_argv :: "world \<Rightarrow> string list" where
  "gn_argv w =
     [path_joins (base_path w) [''buildtools'', ''gn''], ''gen'', outdir_path w,
      ''--root='' @ base_path w,
      ''--dotfile='' @ path_joins (base_path w) [''packages'', ''dot_gn''],
      ''--script-executable=/usr/bin/env'']"

definition check_call :: "world \<Rightarrow> string list \<Rightarrow> outcome" where
  "check_call w argv =
     \<lparr>events = [Exec argv],
      result = (case run_gn w argv of
                  None \<Rightarrow> Inl (OSError (hd argv))
                | Some status \<Rightarrow> if status = 0 then Inr 0 else Inl (CalledProcessError status))\<rparr>"

text \<open>Lines 46 to 84 of \<^verbatim>\<open>main\<close>: what is done with the collected sequences.\<close>

definition generate :: "world \<Rightarrow> json list \<Rightarrow> binary_entry list \<Rightarrow> outcome" where
  "generate w labels binaries =
     seq (write_file (can_open w) ''BUILD.gn'' (build_gn_text w labels, None))
    (seq (ensure_dir w (pkg_gen_dir w))
    (seq (write_file (can_open w) (manifest_path w)
            (write_manifest w (outdir_path w) binaries))
    (seq (write_file (can_open w) (depfile_path w) (depfile_text w binaries, None))
         (check_call w (gn_argv w)))))"

text \<open>
  \<^verbatim>\<open>main\<close> from line 39 on, for a list of config names.  The command line has been
  parsed (\<^const>\<open>outdir_arg\<close>), and \<^verbatim>\<open>os.chdir(packages_path)\<close> is taken to succeed, the
  directory being that of the running script; \<^verbatim>\<open>BUILD.gn\<close> is therefore a file of that
  directory.  The script itself runs \<^verbatim>\<open>main\<close> on its fixed list \<^verbatim>\<open>package_configs\<close>.
\<close>

definition main_on :: "string list \<Rightarrow> world \<Rightarrow> outcome" where
  "main_on configs w =
     (case collect w configs [] [] of
        (evs, Inl e) \<Rightarrow> \<lparr>events = evs, result = Inl e\<rparr>
      | (evs, Inr (labels, binaries)) \<Rightarrow> seq (evs, None) (generate w labels binaries))"

text \<open>\<^verbatim>\<open>main()\<close> as the script runs it.\<close>

definition main :: "world \<Rightarrow> outcome" where
  "main w = main_on package_configs w"

section \<open>make\_crate.py\<close>

text \<open>\<^verbatim>\<open>os.path.relpath(path, start)\<close>\<close>

definition relpath :: "string \<Rightarrow> string \<Rightarrow> string \<Rightarrow> py_error + string" where
  "relpath cur path start =
     (if path = [] then Inl ValueError
      else
        let start_list = filter (\<lambda>x. x \<noteq> []) (split_on CHR ''/'' (abspath cur start));
            path_list = filter (\<lambda>x. x \<noteq> []) (split_on CHR ''/'' (abspath cur path));
            i = length (longest_common_prefix start_list path_list);
            rel_list = replicate (length start_list - i) ''..'' @ drop i path_list
        in (case rel_list of [] \<Rightarrow> Inr ''.'' | a # p \<Rightarrow> Inr (path_joins a p)))"

text \<open>
  The environment of \<^verbatim>\<open>make_crate\<close>.  \<^verbatim>\<open>label_to_crate\<close> is imported from a module of its
  own, so it is a parameter here.
\<close>

record crate_world =
  label_to_crate :: "string \<Rightarrow> string"
  crate_cwd :: string
  crate_can_open :: "string \<Rightarrow> bool"

definition cargo_toml_text :: "crate_world \<Rightarrow> string \<Rightarrow> string" where
  \<open>cargo_toml_text e output =
     ''# Autogenerated by //garnet/public/lib/fidl/build/make_crate.py\<newline>'' @
     ''[package]\<newline>'' @
     ''name = "'' @ label_to_crate e output @ ''"\<newline>'' @
     ''version = "0.1.0"\<newline>'' @
     ''\<newline>'' @
     ''[dependencies]\<newline>'' @
     ''futures = "0.1"\<newline>'' @
     ''tokio-core = "0.1.9"\<newline>''\<close>

definition lib_rs_header :: string where
  "lib_rs_header =
     ''// Autogenerated by //garnet/public/lib/fidl/build/make_crate.py\<newline>'' @
     ''#[macro_use]\<newline>'' @
     ''extern crate fidl;\<newline>'' @
     ''extern crate fuchsia_zircon as zircon;\<newline>'' @
     ''extern crate futures;\<newline>'' @
     ''extern crate tokio_core;\<newline>'' @
     ''extern crate tokio_fuchsia;\<newline>''"

text \<open>Lines 43 to 46.\<close>

fun write_dep_crates :: "crate_world \<Rightarrow> string list \<Rightarrow> string" where
  "write_dep_crates e [] = []"
| "write_dep_crates e (dep # deps) =
     (''pub extern crate '' @ label_to_crate e dep @ '';\<newline>'') @ write_dep_crates e deps"

text \<open>Lines 48 to 53; \<^verbatim>\<open>relpath\<close> raises on an empty path.\<close>

fun write_mods :: "crate_world \<Rightarrow> string \<Rightarrow> string list \<Rightarrow> string \<times> py_error option" where
  "write_mods e lib_dir [] = ([], None)"
| \<open>write_mods e lib_dir (i # inputs) =
     (case relpath (crate_cwd e) i lib_dir of
        Inl err \<Rightarrow> ([], Some err)
      | Inr rel \<Rightarrow>
          (let stem = splitext_root (basename i);
               attr = (if rel \<noteq> stem @ ''.rs'' then ''#[path="'' @ rel @ ''"]\<newline>'' else [])
           in case write_mods e lib_dir inputs of
                (text, err) \<Rightarrow> (attr @ ''mod '' @ stem @ '';\<newline>'' @ text, err)))\<close>

text \<open>Lines 55 to 57.\<close>

fun write_uses :: "string list \<Rightarrow> string" where
  "write_uses [] = []"
| "write_uses (i # inputs) =
     (''pub use '' @ splitext_root (basename i) @ ''::*;\<newline>'') @ write_uses inputs"

definition cargo_toml_path :: "string \<Rightarrow> string \<Rightarrow> string" where
  "cargo_toml_path gen_dir output = path_join (path_join gen_dir output) ''Cargo.toml''"

definition lib_fn :: "string \<Rightarrow> string \<Rightarrow> string" where
  "lib_fn gen_dir output = path_joins (path_join gen_dir output) [''src'', ''lib.rs'']"

text \<open>What is written to \<^verbatim>\<open>src_f\<close> from line 36 on, and the exception that ended it.\<close>

definition lib_rs_body :: "crate_world \<Rightarrow> string \<Rightarrow> string list \<Rightarrow> string list \<Rightarrow>
    string \<times> py_error option" where
  "lib_rs_body e lib_dir inputs dep_inputs =
     (case write_mods e lib_dir inputs of
        (mods, Some err) \<Rightarrow>
          (lib_rs_header @ write_dep_crates e dep_inputs @ ''\<newline>'' @ mods, Some err)
      | (mods, None) \<Rightarrow>
          (lib_rs_header @ write_dep_crates e dep_inputs @ ''\<newline>'' @ mods @ ''\<newline>'' @
           write_uses inputs, None))"

text \<open>
  \<^verbatim>\<open>make_crate(output, gen_dir, inputs, srcroot, dep_inputs)\<close>: the events and the
  exception that ended the call, if one did.
\<close>

definition make_crate :: "crate_world \<Rightarrow> string \<Rightarrow> string \<Rightarrow> string list \<Rightarrow> string \<Rightarrow>
    string list \<Rightarrow> event list \<times> py_error option" where
  "make_crate e output gen_dir inputs srcroot dep_inputs =
     (case write_file (crate_can_open e) (cargo_toml_path gen_dir output)
             (cargo_toml_text e output, None) of
        (evs, Some err) \<Rightarrow> (evs, Some err)
      | (evs, None) \<Rightarrow>
          (case write_file (crate_can_open e) (lib_fn gen_dir output)
                  (lib_rs_body e (dirname (lib_fn gen_dir output)) inputs dep_inputs) of
             (evs', err) \<Rightarrow> (evs @ evs', err)))"

section \<open>Notions used to state the properties\<close>





text \<open>The file that \<^verbatim>\<open>main\<close> reads for a config name.\<close>

definition config_at :: "world \<Rightarrow> string \<Rightarrow> config_file" where
  "config_at w c = read_config w (path_join (packages_path w) c)"

text \<open>The diagnostics are the only events of the collecting loop.\<close>

fun is_diag :: "event \<Rightarrow> bool" where
  "is_diag (Diag c e) = True"
| "is_diag _ = False"



subsection \<open>Sample environments\<close>

text \<open>
  The script lives in \<^verbatim>\<open>/src/packages\<close> and is started in \<^verbatim>\<open>/src\<close> with the default
  output directory.  Config \<^verbatim>\<open>a\<close> is the example of the specification, the second entry
  of config \<^verbatim>\<open>p\<close> lacks its \<^verbatim>\<open>bootfs_path\<close>, and \<^verbatim>\<open>bad\<close> is not JSON.  Every file can be
  opened, the output directory does not exist yet and can be made, and the external
  generator exits with status 0.
\<close>

definition cfg_a :: json where
  "cfg_a = JObject [(''label'', JString ''//a''),
     (''binaries'', JArray [JObject [(''binary'', JString ''a.bin''), (''bootfs_path'', JString ''bin/a'')]])]"

definition cfg_p :: json where
  "cfg_p = JObject [(''label'', JString ''//p''),
     (''binaries'', JArray [JObject [(''binary'', JString ''p.bin''), (''bootfs_path'', JString ''bin/p'')],
                            JObject [(''binary'', JString ''q.bin'')]])]"

definition demo_files :: "string \<Rightarrow> config_file" where
  "demo_files p =
     (if p = ''/src/packages/a'' then Json cfg_a
      else if p = ''/src/packages/p'' then Json cfg_p
      else if p = ''/src/packages/bad'' then NotJson
      else NoSuchFile)"

definition demo_world :: world where
  "demo_world = \<lparr>outdir_arg = ''out/Debug'', script_file = ''/src/packages/gen.py'', cwd = ''/src'',
     read_config = demo_files, can_open = (\<lambda>p. True), isdir = (\<lambda>p. False),
     can_makedirs = (\<lambda>p. True), run_gn = (\<lambda>argv. Some 0), py_str = (\<lambda>v. [])\<rparr>"

text \<open>The same, with an output directory that cannot be made.\<close>

definition stuck_world :: world where
  "stuck_world = demo_world\<lparr>can_makedirs := (\<lambda>p. False)\<rparr>"

text \<open>The same after a first run: the output directory exists.\<close>

definition rerun_world :: world where
  "rerun_world = demo_world\<lparr>isdir := (\<lambda>p. True), can_makedirs := (\<lambda>p. False)\<rparr>"

text \<open>The same, with an external generator that exits with status 1.\<close>

definition failing_world :: world where
  "failing_world = demo_world\<lparr>run_gn := (\<lambda>argv. Some 1)\<rparr>"

text \<open>
  An environment for \<^verbatim>\<open>make_crate\<close>, called in \<^verbatim>\<open>/out\<close>; the crate name of a label is
  taken to be \<^verbatim>\<open>crate_\<close> followed by its last component.
\<close>

definition demo_crate :: crate_world where
  "demo_crate = \<lparr>label_to_crate = (\<lambda>label. ''crate_'' @ basename label), crate_cwd = ''/out'',
     crate_can_open = (\<lambda>p. True)\<rparr>"

section \<open>Auxiliary facts\<close>

subsection \<open>File names\<close>

lemma last_path_join:
  "b \<noteq> [] \<Longrightarrow> \<not> startswith b ''/'' \<Longrightarrow> last (path_join a b) = last b"
  by (simp add: path_join_def)

lemma last_manifest_path: "last (manifest_path w) = CHR ''t''"
  by (simp add: manifest_path_def last_path_join startswith_def)

lemma last_depfile_path: "last (depfile_path w) = CHR ''d''"
  by (simp add: depfile_path_def last_path_join startswith_def)

lemma manifest_not_build_gn: "manifest_path w \<noteq> ''BUILD.gn''"
  using last_manifest_path [of w] by auto

lemma depfile_not_build_gn: "depfile_path w \<noteq> ''BUILD.gn''"
  using last_depfile_path [of w] by auto

lemma depfile_not_manifest: "depfile_path w \<noteq> manifest_path w"
  using last_depfile_path [of w] last_manifest_path [of w] by auto

lemma last_cargo_toml_path: "last (cargo_toml_path g out) = CHR ''l''"
  by (simp add: cargo_toml_path_def last_path_join startswith_def)

lemma last_lib_fn: "last (lib_fn g out) = CHR ''s''"
  by (simp add: lib_fn_def path_joins_def last_path_join startswith_def)

lemma lib_fn_not_cargo: "lib_fn g out \<noteq> cargo_toml_path g out"
  using last_cargo_toml_path [of g out] last_lib_fn [of g out] by auto

subsection \<open>What the collecting loop returns\<close>





lemma parse_config_events: "list_all is_diag (fst (parse_config w config labels binaries))"
  by (simp add: parse_config_def split: config_file.splits prod.splits option.splits)

lemma collect_events: "list_all is_diag (fst (collect w configs labels binaries))"
proof (induction configs arbitrary: labels binaries)
  case Nil
  then show ?case by simp
next
  case (Cons c cs)
  then show ?case
    using parse_config_events [of w "path_join (packages_path w) c" labels binaries]
    by (auto split: prod.splits sum.splits) (metis fst_conv)
qed

lemma file_written_diags: "list_all is_diag evs \<Longrightarrow> file_written evs p = None"
  by (induction evs) (auto split: event.splits elim: is_diag.elims)

lemma file_written_append:
  "file_written (xs @ ys) p = (case file_written ys p of Some t \<Rightarrow> Some t | None \<Rightarrow> file_written xs p)"
  by (induction xs) (auto split: option.splits)

lemma collect_cases:
  obtains evs e where "collect w configs labels binaries = (evs, Inl e)" "list_all is_diag evs"
  | evs ls bs where "collect w configs labels binaries = (evs, Inr (ls, bs))" "list_all is_diag evs"
proof (cases "collect w configs labels binaries")
  case (Pair evs r)
  with collect_events [of w configs labels binaries] have d: "list_all is_diag evs" by simp
  show ?thesis
  proof (cases r)
    case (Inl e)
    with Pair d that(1) show ?thesis by blast
  next
    case (Inr p)
    with Pair d that(2) show ?thesis by (cases p) blast
  qed
qed

subsection \<open>The steps after the collection\<close>

lemma seq_None [simp]:
  "seq (evs, None) rest = \<lparr>events = evs @ events rest, result = result rest\<rparr>"
  by (simp add: seq_def)

lemma seq_Some [simp]: "seq (evs, Some e) rest = \<lparr>events = evs, result = Inl e\<rparr>"
  by (simp add: seq_def)

lemma write_file_open [simp]:
  "may_open p \<Longrightarrow> write_file may_open p body = ([Open p, Wrote p (fst body)], snd body)"
  by (simp add: write_file_def)

lemma write_file_closed [simp]:
  "\<not> may_open p \<Longrightarrow> write_file may_open p body = ([Open p], Some (IOError p))"
  by (simp add: write_file_def)

lemma generate_cases:
  "generate w labels binaries =
    (if \<not> can_open w ''BUILD.gn''
     then \<lparr>events = [Open ''BUILD.gn''], result = Inl (IOError ''BUILD.gn'')\<rparr>
     else seq ([Open ''BUILD.gn'', Wrote ''BUILD.gn'' (build_gn_text w labels)], None)
       (if \<not> isdir w (pkg_gen_dir w) \<and> \<not> can_makedirs w (pkg_gen_dir w)
        then \<lparr>events = [MakeDirs (pkg_gen_dir w)], result = Inl (OSError (pkg_gen_dir w))\<rparr>
        else seq (if isdir w (pkg_gen_dir w) then [] else [MakeDirs (pkg_gen_dir w)], None)
          (if \<not> can_open w (manifest_path w)
           then \<lparr>events = [Open (manifest_path w)], result = Inl (IOError (manifest_path w))\<rparr>
           else seq ([Open (manifest_path w),
                      Wrote (manifest_path w) (fst (write_manifest w (outdir_path w) binaries))],
                     snd (write_manifest w (outdir_path w) binaries))
             (if \<not> can_open w (depfile_path w)
              then \<lparr>events = [Open (depfile_path w)], result = Inl (IOError (depfile_path w))\<rparr>
              else seq ([Open (depfile_path w), Wrote (depfile_path w) (depfile_text w binaries)],
                        None)
                     (check_call w (gn_argv w))))))"
  by (simp add: generate_def ensure_dir_def)

lemma build_gn_generated:
  "can_open w ''BUILD.gn'' \<Longrightarrow>
   file_written (events (generate w labels binaries)) ''BUILD.gn'' = Some (build_gn_text w labels)"
  using manifest_not_build_gn [of w] depfile_not_build_gn [of w]
  by (cases "snd (write_manifest w (outdir_path w) binaries)")
     (simp_all add: generate_cases check_call_def)


lemma file_written_after_diags:
  "list_all is_diag evs \<Longrightarrow> file_written (events (seq (evs, None) rest)) p = file_written (events rest) p"
  by (simp add: file_written_append file_written_diags split: option.splits)




subsection \<open>The sample run, manifest and dependency file\<close>

lemma demo_packages_path: "packages_path demo_world = ''/src/packages''"
  by (simp add: packages_path_def demo_world_def abspath_def dirname_def rstrip_slash_def
      startswith_def normpath_def Let_def str_join.simps)

lemma demo_base_path: "base_path demo_world = ''/src''"
  by (simp add: base_path_def demo_packages_path abspath_def path_join_def endswith_def
      startswith_def normpath_def Let_def)

lemma demo_config_at:
  "config_at demo_world ''a'' = Json cfg_a"
  "config_at demo_world ''p'' = Json cfg_p"
  "config_at demo_world ''bad'' = NotJson"
  by (simp_all add: config_at_def demo_packages_path path_join_def endswith_def startswith_def)
     (simp_all add: demo_world_def demo_files_def)



lemma manifest_generated:
  assumes "can_open w ''BUILD.gn''"
    and "isdir w (pkg_gen_dir w) \<or> can_makedirs w (pkg_gen_dir w)"
    and "can_open w (manifest_path w)"
  shows "file_written (events (generate w labels binaries)) (manifest_path w) =
     Some (fst (write_manifest w (outdir_path w) binaries))"
  using assms manifest_not_build_gn [of w] depfile_not_manifest [of w]
  by (cases "snd (write_manifest w (outdir_path w) binaries)")
     (auto simp add: generate_cases check_call_def)

lemma depfile_generated:
  assumes "can_open w ''BUILD.gn''"
    and "isdir w (pkg_gen_dir w) \<or> can_makedirs w (pkg_gen_dir w)"
    and "can_open w (manifest_path w)"
    and "snd (write_manifest w (outdir_path w) binaries) = None"
    and "can_open w (depfile_path w)"
  shows "file_written (events (generate w labels binaries)) (depfile_path w) =
     Some (depfile_text w binaries)"
  using assms depfile_not_build_gn [of w] depfile_not_manifest [of w]
  by (auto simp add: generate_cases check_call_def)

lemma demo_outdir_path: "outdir_path demo_world = ''/src/out/Debug''"
  by (simp add: outdir_path_def demo_base_path path_join_def startswith_def endswith_def)
     (simp add: demo_world_def)

lemma demo_pkg_gen_dir: "pkg_gen_dir demo_world = ''/src/out/Debug/gen/packages/mkbootfs''"
  by (simp add: pkg_gen_dir_def demo_outdir_path path_joins_def path_join_def startswith_def
      endswith_def)

lemma demo_manifest_path:
  "manifest_path demo_world = ''/src/out/Debug/gen/packages/mkbootfs/user.bootfs.manifest''"
  by (simp add: manifest_path_def demo_pkg_gen_dir path_join_def startswith_def endswith_def)

lemma demo_depfile_path:
  "depfile_path demo_world = ''/src/out/Debug/gen/packages/mkbootfs/user.bootfs.d''"
  by (simp add: depfile_path_def demo_pkg_gen_dir path_join_def startswith_def endswith_def)

lemma demo_collect_a:
  "collect demo_world [''a''] [] [] =
     ([], Inr ([JString ''//a''], [\<lparr>binary = JString ''a.bin'', bootfs_path = JString ''bin/a''\<rparr>]))"
  using demo_config_at(1)
  by (simp add: config_at_def parse_config_def load_config_def cfg_a_def)

lemma demo_main_a:
  "main_on [''a''] demo_world =
     generate demo_world [JString ''//a'']
       [\<lparr>binary = JString ''a.bin'', bootfs_path = JString ''bin/a''\<rparr>]"
  by (simp add: main_on_def demo_collect_a del: collect.simps)








subsection \<open>Order of events, skipped files, reruns and the subprocess\<close>

lemma diags_before_makedirs:
  "list_all is_diag evs \<Longrightarrow>
   takeWhile (\<lambda>e. e \<noteq> MakeDirs d) (evs @ rest) = evs @ takeWhile (\<lambda>e. e \<noteq> MakeDirs d) rest"
  by (rule takeWhile_append2) (auto simp: list_all_iff)

lemma diags_not_open: "list_all is_diag evs \<Longrightarrow> Open p \<notin> set evs"
  by (auto simp: list_all_iff)

lemma diags_no_opens: "list_all is_diag evs \<Longrightarrow> list_all (\<lambda>e. e \<noteq> Open p \<and> e \<noteq> Open q) evs"
  by (auto simp: list_all_iff)

lemma diags_not_makedirs: "list_all is_diag evs \<Longrightarrow> MakeDirs d \<notin> set evs"
  by (auto simp: list_all_iff)

lemma generate_no_early_open:
  "\<not> isdir w (pkg_gen_dir w) \<Longrightarrow>
   list_all (\<lambda>e. e \<noteq> Open (manifest_path w) \<and> e \<noteq> Open (depfile_path w))
     (takeWhile (\<lambda>e. e \<noteq> MakeDirs (pkg_gen_dir w)) (events (generate w labels binaries)))"
  using manifest_not_build_gn [of w] depfile_not_build_gn [of w]
  by (simp add: generate_cases)

lemma generate_makedirs_fails:
  "\<not> isdir w (pkg_gen_dir w) \<Longrightarrow> \<not> can_makedirs w (pkg_gen_dir w) \<Longrightarrow>
   isl (result (generate w labels binaries)) \<and>
   Open (manifest_path w) \<notin> set (events (generate w labels binaries)) \<and>
   Open (depfile_path w) \<notin> set (events (generate w labels binaries))"
  using manifest_not_build_gn [of w] depfile_not_build_gn [of w]
  by (simp add: generate_cases)

lemma generate_build_gn_first:
  "MakeDirs (pkg_gen_dir w) \<in> set (events (generate w labels binaries)) \<Longrightarrow>
   Open ''BUILD.gn'' \<in>
     set (takeWhile (\<lambda>e. e \<noteq> MakeDirs (pkg_gen_dir w)) (events (generate w labels binaries)))"
  by (cases "snd (write_manifest w (outdir_path w) binaries)")
     (auto simp add: generate_cases check_call_def split: if_splits)

lemma collect_append:
  "collect w (xs @ ys) labels binaries =
     (case collect w xs labels binaries of
        (evs, Inl e) \<Rightarrow> (evs, Inl e)
      | (evs, Inr (labels', binaries')) \<Rightarrow>
          (case collect w ys labels' binaries' of (evs', r) \<Rightarrow> (evs @ evs', r)))"
  by (induction xs arbitrary: labels binaries) (auto split: prod.splits sum.splits)

lemma collect_skips_invalid:
  assumes "config_at w bad = NotJson"
  shows "snd (collect w (bad # cs) labels binaries) = snd (collect w cs labels binaries)"
  using assms by (simp add: config_at_def parse_config_def split: prod.splits)

lemma collect_skips_invalid_inside:
  assumes "config_at w bad = NotJson"
  shows "snd (collect w (cs1 @ bad # cs2) labels binaries) =
     snd (collect w (cs1 @ cs2) labels binaries)"
proof (cases "collect w cs1 labels binaries")
  case (Pair evs r)
  show ?thesis
  proof (cases r)
    case (Inl e)
    with Pair show ?thesis by (simp add: collect_append)
  next
    case (Inr s)
    obtain ls bs where s: "s = (ls, bs)" by (cases s)
    have "snd (collect w (bad # cs2) ls bs) = snd (collect w cs2 ls bs)"
      by (rule collect_skips_invalid [OF assms])
    with Pair Inr s show ?thesis
      by (cases "collect w (bad # cs2) ls bs"; cases "collect w cs2 ls bs")
         (simp add: collect_append del: collect.simps)
  qed
qed

lemma main_on_files:
  "file_written (events (main_on configs w)) p =
     (case snd (collect w configs [] []) of
        Inl e \<Rightarrow> None
      | Inr (ls, bs) \<Rightarrow> file_written (events (generate w ls bs)) p)"
proof (rule collect_cases [of w configs "[]" "[]"])
  fix evs e
  assume "collect w configs [] [] = (evs, Inl e)" "list_all is_diag evs"
  then show ?thesis by (simp add: main_on_def file_written_diags)
next
  fix evs ls bs
  assume "collect w configs [] [] = (evs, Inr (ls, bs))" "list_all is_diag evs"
  then show ?thesis
    using file_written_after_diags [of evs "generate w ls bs" p] by (simp add: main_on_def)
qed

lemma main_on_result:
  "result (main_on configs w) =
     (case snd (collect w configs [] []) of
        Inl e \<Rightarrow> Inl e
      | Inr (ls, bs) \<Rightarrow> result (generate w ls bs))"
  by (cases "collect w configs [] []") (auto simp: main_on_def split: sum.splits)

lemma demo_gn_argv:
  "gn_argv demo_world =
     [''/src/buildtools/gn'', ''gen'', ''/src/out/Debug'', ''--root=/src'',
      ''--dotfile=/src/packages/dot_gn'', ''--script-executable=/usr/bin/env'']"
  by (simp add: gn_argv_def demo_base_path demo_outdir_path path_joins_def path_join_def
      startswith_def endswith_def)

lemma demo_run_a:
  "main_on [''a''] demo_world =
     \<lparr>events =
        [Open ''BUILD.gn'',
         Wrote ''BUILD.gn'' (build_gn_text demo_world [JString ''//a'']),
         MakeDirs ''/src/out/Debug/gen/packages/mkbootfs'',
         Open ''/src/out/Debug/gen/packages/mkbootfs/user.bootfs.manifest'',
         Wrote ''/src/out/Debug/gen/packages/mkbootfs/user.bootfs.manifest''
           ''bin/a=/src/out/Debug/a.bin\<newline>'',
         Open ''/src/out/Debug/gen/packages/mkbootfs/user.bootfs.d'',
         Wrote ''/src/out/Debug/gen/packages/mkbootfs/user.bootfs.d''
           ''user.bootfs: gen/packages/mkbootfs/user.bootfs.manifest a.bin\<newline>'',
         Exec [''/src/buildtools/gn'', ''gen'', ''/src/out/Debug'', ''--root=/src'',
               ''--dotfile=/src/packages/dot_gn'', ''--script-executable=/usr/bin/env'']],
      result = Inr 0\<rparr>"
proof -
  have w: "\<not> isdir demo_world d" "can_makedirs demo_world d" "can_open demo_world d"
    "run_gn demo_world argv = Some 0" for d argv
    by (simp_all add: demo_world_def)
  have m: "write_manifest demo_world ''/src/out/Debug''
      [\<lparr>binary = JString ''a.bin'', bootfs_path = JString ''bin/a''\<rparr>] =
      (''bin/a=/src/out/Debug/a.bin\<newline>'', None)"
    by (simp add: path_join_def startswith_def endswith_def)
  show ?thesis
    by (simp add: demo_main_a generate_cases w demo_pkg_gen_dir demo_manifest_path
        demo_depfile_path demo_outdir_path m check_call_def demo_gn_argv depfile_text_def
        del: write_manifest.simps)
qed

lemma generate_ok:
  assumes "result (generate w ls bs) = Inr 0"
  shows "can_open w ''BUILD.gn''"
    and "isdir w (pkg_gen_dir w) \<or> can_makedirs w (pkg_gen_dir w)"
    and "can_open w (manifest_path w)"
    and "snd (write_manifest w (outdir_path w) bs) = None"
    and "can_open w (depfile_path w)"
proof -
  show 1: "can_open w ''BUILD.gn''"
    by (rule ccontr) (use assms in \<open>simp add: generate_cases\<close>)
  show 2: "isdir w (pkg_gen_dir w) \<or> can_makedirs w (pkg_gen_dir w)"
    by (rule ccontr) (use assms 1 in \<open>simp add: generate_cases\<close>)
  from 2 have 2: "(\<not> isdir w (pkg_gen_dir w) \<and> \<not> can_makedirs w (pkg_gen_dir w)) = False"
    by simp
  show 3: "can_open w (manifest_path w)"
    by (rule ccontr) (use assms 1 2 in \<open>simp add: generate_cases\<close>)
  show 4: "snd (write_manifest w (outdir_path w) bs) = None"
  proof (rule ccontr)
    assume "snd (write_manifest w (outdir_path w) bs) \<noteq> None"
    then obtain e where "snd (write_manifest w (outdir_path w) bs) = Some e" by auto
    with assms 1 2 3 show False by (simp add: generate_cases)
  qed
  show "can_open w (depfile_path w)"
    by (rule ccontr) (use assms 1 2 3 4 in \<open>simp add: generate_cases\<close>)
qed

lemma parse_config_cong:
  "read_config w2 config = read_config w1 config \<Longrightarrow>
   parse_config w2 config labels binaries = parse_config w1 config labels binaries"
  by (simp add: parse_config_def)

lemma collect_cong:
  assumes "packages_path w2 = packages_path w1"
    and "\<forall>c \<in> set configs. config_at w2 c = config_at w1 c"
  shows "collect w2 configs labels binaries = collect w1 configs labels binaries"
  using assms(2)
proof (induction configs arbitrary: labels binaries)
  case Nil
  then show ?case by simp
next
  case (Cons c cs)
  have "parse_config w2 (path_join (packages_path w1) c) labels binaries =
      parse_config w1 (path_join (packages_path w1) c) labels binaries"
    using Cons.prems assms(1) by (intro parse_config_cong) (simp add: config_at_def)
  with Cons show ?case by (simp add: assms(1))
qed

lemma format_s_cong: "py_str w2 = py_str w1 \<Longrightarrow> format_s w2 v = format_s w1 v"
  by (cases v) simp_all

lemma write_labels_cong: "py_str w2 = py_str w1 \<Longrightarrow> write_labels w2 ls = write_labels w1 ls"
  by (induction ls) (simp_all add: format_s_cong [of w2 w1])

lemma write_manifest_cong:
  "py_str w2 = py_str w1 \<Longrightarrow> write_manifest w2 outdir bs = write_manifest w1 outdir bs"
  by (induction bs) (simp_all add: format_s_cong [of w2 w1] split: json.splits)

lemma write_deps_cong: "py_str w2 = py_str w1 \<Longrightarrow> write_deps w2 bs = write_deps w1 bs"
  by (induction bs) (simp_all add: format_s_cong [of w2 w1])

lemma diags_not_exec: "list_all is_diag evs \<Longrightarrow> Exec argv \<notin> set evs"
  by (auto simp: list_all_iff)

lemma diags_no_exec: "list_all is_diag evs \<Longrightarrow> filter is_exec evs = []"
  by (induction evs) (auto elim: is_diag.elims)

lemma generate_exec:
  assumes "Exec argv \<in> set (events (generate w ls bs))"
  shows "argv = gn_argv w"
    and "result (generate w ls bs) = result (check_call w (gn_argv w))"
    and "filter is_exec (events (generate w ls bs)) = [Exec (gn_argv w)]"
    and "last (events (generate w ls bs)) = Exec (gn_argv w)"
  using assms
  by (cases "snd (write_manifest w (outdir_path w) bs)";
      simp add: generate_cases check_call_def split: if_splits)+

subsection \<open>The crate generator\<close>

lemma write_dep_crates_concat:
  "write_dep_crates e deps =
     concat (map (\<lambda>dep. ''pub extern crate '' @ label_to_crate e dep @ '';\<newline>'') deps)"
  by (induction deps) simp_all

lemma write_uses_concat:
  "write_uses inputs =
     concat (map (\<lambda>i. ''pub use '' @ splitext_root (basename i) @ ''::*;\<newline>'') inputs)"
  by (induction inputs) simp_all

lemma relpath_nonempty: "path \<noteq> [] \<Longrightarrow> relpath cur path start = Inr (projr (relpath cur path start))"
  by (simp add: relpath_def Let_def split: list.splits)

lemma write_mods_nonempty:
  \<open>[] \<notin> set inputs \<Longrightarrow>
   write_mods e lib_dir inputs =
     (concat (map (\<lambda>i.
        (if projr (relpath (crate_cwd e) i lib_dir) \<noteq> splitext_root (basename i) @ ''.rs''
         then ''#[path="'' @ projr (relpath (crate_cwd e) i lib_dir) @ ''"]\<newline>'' else []) @
        ''mod '' @ splitext_root (basename i) @ '';\<newline>'') inputs), None)\<close>
proof (induction inputs)
  case Nil
  then show ?case by simp
next
  case (Cons i inputs)
  then have "i \<noteq> []" by auto
  then obtain rel where r: "relpath (crate_cwd e) i lib_dir = Inr rel"
    using relpath_nonempty by blast
  from Cons have \<open>write_mods e lib_dir inputs =
     (concat (map (\<lambda>i.
        (if projr (relpath (crate_cwd e) i lib_dir) \<noteq> splitext_root (basename i) @ ''.rs''
         then ''#[path="'' @ projr (relpath (crate_cwd e) i lib_dir) @ ''"]\<newline>'' else []) @
        ''mod '' @ splitext_root (basename i) @ '';\<newline>'') inputs), None)\<close>
    by simp
  then show ?case by (simp add: r Let_def)
qed

lemma make_crate_cargo:
  "file_written (fst (make_crate e output gen_dir inputs srcroot dep_inputs))
     (cargo_toml_path gen_dir output) =
   (if crate_can_open e (cargo_toml_path gen_dir output)
    then Some (cargo_toml_text e output) else None)"
  using lib_fn_not_cargo [of gen_dir "output"]
  by (cases "crate_can_open e (cargo_toml_path gen_dir output)";
      cases "crate_can_open e (lib_fn gen_dir output)")
     (simp_all add: make_crate_def)

lemma make_crate_lib:
  assumes "crate_can_open e (cargo_toml_path gen_dir output)"
    and "crate_can_open e (lib_fn gen_dir output)"
  shows "snd (make_crate e output gen_dir inputs srcroot dep_inputs) =
           snd (lib_rs_body e (dirname (lib_fn gen_dir output)) inputs dep_inputs)"
    and "file_written (fst (make_crate e output gen_dir inputs srcroot dep_inputs))
           (lib_fn gen_dir output) =
         Some (fst (lib_rs_body e (dirname (lib_fn gen_dir output)) inputs dep_inputs))"
  using assms by (simp_all add: make_crate_def)

lemma demo_lib_dir: "dirname (lib_fn ''gen'' ''lib/foo'') = ''gen/lib/foo/src''"
  by (simp add: lib_fn_def path_joins_def path_join_def startswith_def endswith_def dirname_def
      rstrip_slash_def)

lemma demo_relpath_empty: "relpath ''/out'' [] ''gen/lib/foo/src'' = Inl ValueError"
  by (simp add: relpath_def)

lemma demo_relpath_a: "relpath ''/out'' ''gen/lib/foo/src/a.rs'' ''gen/lib/foo/src'' = Inr ''a.rs''"
  by code_simp

lemma demo_relpath_b:
  "relpath ''/out'' ''gen/x/b.fidl.rs'' ''gen/lib/foo/src'' = Inr ''../../../x/b.fidl.rs''"
  by code_simp

lemma demo_stems:
  "splitext_root (basename ''gen/lib/foo/src/a.rs'') = ''a''"
  "splitext_root (basename ''gen/x/b.fidl.rs'') = ''b.fidl''"
  by code_simp+

section \<open>Properties\<close>

subsection \<open>C1: the group file lists the labels in order\<close>



subsection \<open>C2: the boot manifest\<close>



subsection \<open>C3: what a failing config file leaves behind\<close>




subsection \<open>C4: the dependency file\<close>




subsection \<open>C5: the output directory and the order of the writes\<close>

text \<open>
  C5 says that no output file is written before the output directory has been created,
  and that a run whose directory creation fails has attempted no output file write.  The
  group file is one of the output files, and \<^verbatim>\<open>main\<close> writes it at lines 46 to 61, before
  the directory is looked at in line 65: it goes to the directory of the script, not to
  the output directory.  In a world where the directory is missing and cannot be made,
  the run has written \<^verbatim>\<open>BUILD.gn\<close> when it aborts.
\<close>

theorem build_gn_before_makedirs_counterexample:
  "\<not> isdir stuck_world (pkg_gen_dir stuck_world) \<and>
   main_on [''a''] stuck_world =
     \<lparr>events = [Open ''BUILD.gn'',
                Wrote ''BUILD.gn'' (build_gn_text stuck_world [JString ''//a'']),
                MakeDirs ''/src/out/Debug/gen/packages/mkbootfs''],
      result = Inl (OSError ''/src/out/Debug/gen/packages/mkbootfs'')\<rparr>"
proof -
  have p: "pkg_gen_dir stuck_world = ''/src/out/Debug/gen/packages/mkbootfs''"
    using demo_pkg_gen_dir
    by (simp add: stuck_world_def pkg_gen_dir_def outdir_path_def base_path_def packages_path_def)
  have c: "collect stuck_world [''a''] [] [] = collect demo_world [''a''] [] []"
    by (simp add: stuck_world_def parse_config_def packages_path_def)
  have m: "main_on [''a''] stuck_world = generate stuck_world [JString ''//a'']
       [\<lparr>binary = JString ''a.bin'', bootfs_path = JString ''bin/a''\<rparr>]"
    by (simp add: main_on_def c demo_collect_a del: collect.simps)
  have w: "\<not> isdir stuck_world d" "\<not> can_makedirs stuck_world d" "can_open stuck_world d" for d
    by (simp_all add: stuck_world_def demo_world_def)
  show ?thesis
    by (simp add: m generate_cases w p)
qed

text \<open>
  C5 as amended.  In every run, if the output directory does not exist it is created
  (by \<^verbatim>\<open>os.makedirs\<close>, recursively) before the manifest or the dependency file is opened,
  and if the creation fails the run aborts having opened neither of them.  The group file
  \<^verbatim>\<open>BUILD.gn\<close>, which is written next to the script, is written before the directory
  creation step.
\<close>

theorem makedirs_before_outdir_writes:
  "(\<not> isdir w (pkg_gen_dir w) \<longrightarrow>
      list_all (\<lambda>e. e \<noteq> Open (manifest_path w) \<and> e \<noteq> Open (depfile_path w))
        (takeWhile (\<lambda>e. e \<noteq> MakeDirs (pkg_gen_dir w)) (events (main_on configs w)))) \<and>
   (\<not> isdir w (pkg_gen_dir w) \<and> \<not> can_makedirs w (pkg_gen_dir w) \<longrightarrow>
      isl (result (main_on configs w)) \<and>
      Open (manifest_path w) \<notin> set (events (main_on configs w)) \<and>
      Open (depfile_path w) \<notin> set (events (main_on configs w))) \<and>
   (MakeDirs (pkg_gen_dir w) \<in> set (events (main_on configs w)) \<longrightarrow>
      Open ''BUILD.gn'' \<in>
        set (takeWhile (\<lambda>e. e \<noteq> MakeDirs (pkg_gen_dir w)) (events (main_on configs w))))"
proof (rule collect_cases [of w configs "[]" "[]"])
  fix evs e
  assume c: "collect w configs [] [] = (evs, Inl e)" and d: "list_all is_diag evs"
  have t: "takeWhile (\<lambda>e. e \<noteq> MakeDirs (pkg_gen_dir w)) evs = evs"
    using diags_before_makedirs [OF d, of "pkg_gen_dir w" "[]"] by simp
  have m: "events (main_on configs w) = evs" "result (main_on configs w) = Inl e"
    using c by (simp_all add: main_on_def)
  show ?thesis
    unfolding m t
    using diags_no_opens [OF d, of "manifest_path w" "depfile_path w"]
      diags_not_open [OF d] diags_not_makedirs [OF d]
    by simp
next
  fix evs ls bs
  assume c: "collect w configs [] [] = (evs, Inr (ls, bs))" and d: "list_all is_diag evs"
  have m: "events (main_on configs w) = evs @ events (generate w ls bs)"
    "result (main_on configs w) = result (generate w ls bs)"
    using c by (simp_all add: main_on_def)
  show ?thesis
    unfolding m diags_before_makedirs [OF d]
    using diags_no_opens [OF d] diags_not_open [OF d] diags_not_makedirs [OF d]
      generate_no_early_open [of w ls bs] generate_makedirs_fails [of w ls bs]
      generate_build_gn_first [of w ls bs]
    by simp
qed

theorem makedirs_before_outdir_writes_witness:
  "\<not> isdir demo_world (pkg_gen_dir demo_world) \<and>
   MakeDirs (pkg_gen_dir demo_world) \<in> set (events (main_on [''a''] demo_world)) \<and>
   list_all (\<lambda>e. e \<noteq> Open (manifest_path demo_world) \<and> e \<noteq> Open (depfile_path demo_world))
     (takeWhile (\<lambda>e. e \<noteq> MakeDirs (pkg_gen_dir demo_world)) (events (main_on [''a''] demo_world))) \<and>
   Open ''BUILD.gn'' \<in>
     set (takeWhile (\<lambda>e. e \<noteq> MakeDirs (pkg_gen_dir demo_world))
       (events (main_on [''a''] demo_world))) \<and>
   \<not> isdir stuck_world (pkg_gen_dir stuck_world) \<and>
   \<not> can_makedirs stuck_world (pkg_gen_dir stuck_world) \<and>
   isl (result (main_on [''a''] stuck_world)) \<and>
   Open (manifest_path stuck_world) \<notin> set (events (main_on [''a''] stuck_world)) \<and>
   Open (depfile_path stuck_world) \<notin> set (events (main_on [''a''] stuck_world))"
proof -
  have w: "\<not> isdir demo_world d" "can_makedirs demo_world d" "can_open demo_world d" for d
    by (simp_all add: demo_world_def)
  have s: "\<not> isdir stuck_world d" "\<not> can_makedirs stuck_world d" for d
    by (simp_all add: stuck_world_def demo_world_def)
  have m: "MakeDirs (pkg_gen_dir demo_world) \<in> set (events (main_on [''a''] demo_world))"
    by (simp add: demo_main_a generate_cases w)
  show ?thesis
    using makedirs_before_outdir_writes [of demo_world "[''a'']"]
      makedirs_before_outdir_writes [of stuck_world "[''a'']"] w s m
    by simp
qed

subsection \<open>C6: a config file that is not JSON\<close>

text \<open>
  C6.  A config file that is not valid JSON is skipped with a diagnostic: whatever the
  other config files are, every output file (the group file, the manifest and the
  dependency file among them) and the result of the run are those of the run over the
  other configs alone, so nothing of the invalid file reaches an output and the
  contributions of all the others do.
\<close>

theorem invalid_json_skipped:
  assumes "config_at w bad = NotJson"
  shows "file_written (events (main_on (cs1 @ bad # cs2) w)) p =
           file_written (events (main_on (cs1 @ cs2) w)) p \<and>
         result (main_on (cs1 @ bad # cs2) w) = result (main_on (cs1 @ cs2) w) \<and>
         snd (collect w (cs1 @ bad # cs2) [] []) = snd (collect w (cs1 @ cs2) [] [])"
  by (simp add: main_on_files main_on_result collect_skips_invalid_inside [OF assms])

theorem invalid_json_skipped_witness:
  "config_at demo_world ''bad'' = NotJson \<and>
   file_written (events (main_on [''a'', ''bad''] demo_world)) ''BUILD.gn'' =
     Some (build_gn_text demo_world [JString ''//a'']) \<and>
   file_written (events (main_on [''a'', ''bad''] demo_world))
     ''/src/out/Debug/gen/packages/mkbootfs/user.bootfs.manifest'' =
     Some ''bin/a=/src/out/Debug/a.bin\<newline>'' \<and>
   file_written (events (main_on [''a'', ''bad''] demo_world))
     ''/src/out/Debug/gen/packages/mkbootfs/user.bootfs.d'' =
     Some ''user.bootfs: gen/packages/mkbootfs/user.bootfs.manifest a.bin\<newline>'' \<and>
   result (main_on [''a'', ''bad''] demo_world) = Inr 0"
  using demo_config_at(3)
    invalid_json_skipped [OF demo_config_at(3), of "[''a'']" "[]" "''BUILD.gn''"]
    invalid_json_skipped [OF demo_config_at(3), of "[''a'']" "[]"
      "''/src/out/Debug/gen/packages/mkbootfs/user.bootfs.manifest''"]
    invalid_json_skipped [OF demo_config_at(3), of "[''a'']" "[]"
      "''/src/out/Debug/gen/packages/mkbootfs/user.bootfs.d''"]
  by (simp add: demo_run_a del: collect.simps)

subsection \<open>C7: running twice\<close>

text \<open>
  C7.  Two runs of the script from the same place, with the same output directory
  argument and the same contents of the config files, that both complete, leave the
  same bytes in the group file, in the manifest and in the dependency file.  The runs may
  differ in everything else: whether the output directory already exists (the first run
  creates it), what can be opened, and what the external generator does.
\<close>

theorem same_inputs_same_files:
  assumes "outdir_arg w2 = outdir_arg w1"
    and "script_file w2 = script_file w1"
    and "cwd w2 = cwd w1"
    and "py_str w2 = py_str w1"
    and "\<forall>c \<in> set configs. config_at w2 c = config_at w1 c"
    and "result (main_on configs w1) = Inr 0"
    and "result (main_on configs w2) = Inr 0"
  shows "manifest_path w2 = manifest_path w1 \<and> depfile_path w2 = depfile_path w1 \<and>
    (\<forall>p \<in> {''BUILD.gn'', manifest_path w1, depfile_path w1}.
       \<exists>text. file_written (events (main_on configs w1)) p = Some text \<and>
              file_written (events (main_on configs w2)) p = Some text)"
proof -
  have pp: "packages_path w2 = packages_path w1"
    using assms(2,3) by (simp add: packages_path_def)
  then have od: "outdir_path w2 = outdir_path w1"
    using assms(1) by (simp add: outdir_path_def base_path_def)
  then have pd: "pkg_gen_dir w2 = pkg_gen_dir w1" by (simp add: pkg_gen_dir_def)
  then have mp: "manifest_path w2 = manifest_path w1" and dp: "depfile_path w2 = depfile_path w1"
    by (simp_all add: manifest_path_def depfile_path_def)
  have co: "collect w2 configs [] [] = collect w1 configs [] []"
    by (rule collect_cong [OF pp assms(5)])
  obtain ls bs where c1: "snd (collect w1 configs [] []) = Inr (ls, bs)"
    using assms(6) by (cases "snd (collect w1 configs [] [])") (auto simp: main_on_result)
  have r1: "result (generate w1 ls bs) = Inr 0" using assms(6) c1 by (simp add: main_on_result)
  have r2: "result (generate w2 ls bs) = Inr 0"
    using assms(7) c1 co by (simp add: main_on_result)
  note ok1 = generate_ok [OF r1] and ok2 = generate_ok [OF r2]
  have b1: "file_written (events (main_on configs w1)) ''BUILD.gn'' = Some (build_gn_text w1 ls)"
    using build_gn_generated [OF ok1(1)] c1 by (simp add: main_on_files)
  have b2: "file_written (events (main_on configs w2)) ''BUILD.gn'' = Some (build_gn_text w1 ls)"
    using build_gn_generated [OF ok2(1), of ls bs] c1 co write_labels_cong [OF assms(4)]
    by (simp add: main_on_files build_gn_text_def)
  have m1: "file_written (events (main_on configs w1)) (manifest_path w1) =
      Some (fst (write_manifest w1 (outdir_path w1) bs))"
    using manifest_generated [OF ok1(1-3)] c1 by (simp add: main_on_files)
  have m2: "file_written (events (main_on configs w2)) (manifest_path w1) =
      Some (fst (write_manifest w1 (outdir_path w1) bs))"
    using manifest_generated [OF ok2(1-3), of ls bs] c1 co write_manifest_cong [OF assms(4)]
    by (simp add: main_on_files mp od)
  have d1: "file_written (events (main_on configs w1)) (depfile_path w1) =
      Some (depfile_text w1 bs)"
    using depfile_generated [OF ok1] c1 by (simp add: main_on_files)
  have d2: "file_written (events (main_on configs w2)) (depfile_path w1) =
      Some (depfile_text w1 bs)"
    using depfile_generated [OF ok2, of ls] c1 co write_deps_cong [OF assms(4)]
    by (simp add: main_on_files dp depfile_text_def)
  show ?thesis
    using mp dp b1 b2 m1 m2 d1 d2 by simp
qed

theorem same_inputs_same_files_witness:
  "result (main_on [''a''] demo_world) = Inr 0 \<and>
   result (main_on [''a''] rerun_world) = Inr 0 \<and>
   \<not> isdir demo_world (pkg_gen_dir demo_world) \<and>
   isdir rerun_world (pkg_gen_dir rerun_world) \<and>
   file_written (events (main_on [''a''] rerun_world)) ''BUILD.gn'' =
     Some (build_gn_text demo_world [JString ''//a'']) \<and>
   file_written (events (main_on [''a''] rerun_world))
     ''/src/out/Debug/gen/packages/mkbootfs/user.bootfs.manifest'' =
     Some ''bin/a=/src/out/Debug/a.bin\<newline>'' \<and>
   file_written (events (main_on [''a''] rerun_world))
     ''/src/out/Debug/gen/packages/mkbootfs/user.bootfs.d'' =
     Some ''user.bootfs: gen/packages/mkbootfs/user.bootfs.manifest a.bin\<newline>''"
proof -
  have f: "outdir_arg rerun_world = outdir_arg demo_world"
    "script_file rerun_world = script_file demo_world"
    "cwd rerun_world = cwd demo_world"
    "py_str rerun_world = py_str demo_world"
    by (simp_all add: rerun_world_def)
  have pp: "packages_path rerun_world = packages_path demo_world"
    by (simp add: packages_path_def f)
  have c: "\<forall>c \<in> set [''a'']. config_at rerun_world c = config_at demo_world c"
    by (simp add: config_at_def pp) (simp add: rerun_world_def)
  have co: "collect rerun_world [''a''] [] [] = collect demo_world [''a''] [] []"
    by (rule collect_cong [OF pp c])
  have w: "isdir rerun_world d" "can_open rerun_world d" "run_gn rerun_world argv = Some 0"
    for d argv
    by (simp_all add: rerun_world_def demo_world_def)
  have m: "snd (write_manifest rerun_world (outdir_path rerun_world)
      [\<lparr>binary = JString ''a.bin'', bootfs_path = JString ''bin/a''\<rparr>]) = None"
    by simp
  have r1: "result (main_on [''a''] demo_world) = Inr 0" by (simp add: demo_run_a)
  have r2: "result (main_on [''a''] rerun_world) = Inr 0"
    by (simp add: main_on_result co demo_collect_a generate_cases w m check_call_def
        del: collect.simps write_manifest.simps)
  have d: "\<not> isdir demo_world (pkg_gen_dir demo_world)" by (simp add: demo_world_def)
  show ?thesis
    using same_inputs_same_files [OF f c r1 r2] r1 r2 d w(1)
    by (simp add: demo_run_a demo_manifest_path demo_depfile_path)
qed

subsection \<open>C8: the call of the external generator\<close>

text \<open>
  C8.  In every run that reaches the call of the external build-graph generator, the
  call is the last thing the run does and it is made once (no retry); the run succeeds
  with exit code 0 if and only if the subprocess exits with status zero, and a status
  that is not zero ends the run with the error of \<^verbatim>\<open>check_call\<close>, which nothing catches.
\<close>

theorem toolchain_status_decides:
  assumes "Exec argv \<in> set (events (main_on configs w))"
  shows "(result (main_on configs w) = Inr 0 \<longleftrightarrow> run_gn w argv = Some 0) \<and>
         (\<forall>status. run_gn w argv = Some status \<and> status \<noteq> 0 \<longrightarrow>
            result (main_on configs w) = Inl (CalledProcessError status)) \<and>
         filter is_exec (events (main_on configs w)) = [Exec argv] \<and>
         last (events (main_on configs w)) = Exec argv"
proof (rule collect_cases [of w configs "[]" "[]"])
  fix evs e
  assume "collect w configs [] [] = (evs, Inl e)" "list_all is_diag evs"
  with assms show ?thesis by (simp add: main_on_def diags_not_exec)
next
  fix evs ls bs
  assume c: "collect w configs [] [] = (evs, Inr (ls, bs))" and d: "list_all is_diag evs"
  have m: "events (main_on configs w) = evs @ events (generate w ls bs)"
    "result (main_on configs w) = result (generate w ls bs)"
    using c by (simp_all add: main_on_def)
  have g: "Exec argv \<in> set (events (generate w ls bs))"
    using assms diags_not_exec [OF d] by (simp add: m)
  note x = generate_exec [OF g]
  have ne: "events (generate w ls bs) \<noteq> []" using g by auto
  show ?thesis
    unfolding m using x ne diags_no_exec [OF d]
    by (auto simp: check_call_def split: option.splits)
qed

theorem toolchain_status_decides_witness:
  "Exec (gn_argv demo_world) \<in> set (events (main_on [''a''] demo_world)) \<and>
   run_gn demo_world (gn_argv demo_world) = Some 0 \<and>
   result (main_on [''a''] demo_world) = Inr 0 \<and>
   filter is_exec (events (main_on [''a''] demo_world)) = [Exec (gn_argv demo_world)] \<and>
   Exec (gn_argv failing_world) \<in> set (events (main_on [''a''] failing_world)) \<and>
   run_gn failing_world (gn_argv failing_world) = Some 1 \<and>
   result (main_on [''a''] failing_world) = Inl (CalledProcessError 1)"
proof -
  have e: "Exec (gn_argv demo_world) \<in> set (events (main_on [''a''] demo_world))"
    by (simp add: demo_run_a demo_gn_argv)
  have r: "run_gn demo_world (gn_argv demo_world) = Some 0" by (simp add: demo_world_def)
  have pp: "packages_path failing_world = packages_path demo_world"
    by (simp add: packages_path_def failing_world_def)
  have c: "\<forall>c \<in> set [''a'']. config_at failing_world c = config_at demo_world c"
    by (simp add: config_at_def pp) (simp add: failing_world_def)
  have co: "collect failing_world [''a''] [] [] = collect demo_world [''a''] [] []"
    by (rule collect_cong [OF pp c])
  have w: "\<not> isdir failing_world d" "can_makedirs failing_world d" "can_open failing_world d"
    "run_gn failing_world argv = Some 1" for d argv
    by (simp_all add: failing_world_def demo_world_def)
  have m: "snd (write_manifest failing_world (outdir_path failing_world)
      [\<lparr>binary = JString ''a.bin'', bootfs_path = JString ''bin/a''\<rparr>]) = None"
    by simp
  have e': "Exec (gn_argv failing_world) \<in> set (events (main_on [''a''] failing_world))"
    by (simp add: main_on_def co demo_collect_a generate_cases w m check_call_def
        del: collect.simps write_manifest.simps)
  show ?thesis
    using e r toolchain_status_decides [OF e] e' w(4) toolchain_status_decides [OF e']
    by simp
qed

subsection \<open>C9: the modules of lib.rs\<close>

text \<open>
  C9 speaks of every inputs list.  \<^verbatim>\<open>os.path.relpath\<close> in line 49 raises \<^verbatim>\<open>ValueError\<close> on
  an empty path, so for the inputs list that holds the empty string the call ends there:
  \<^verbatim>\<open>lib.rs\<close> has its header and the blank line after the dependencies, and no \<^verbatim>\<open>mod\<close> or
  \<^verbatim>\<open>pub use\<close> line at all.
\<close>

theorem lib_rs_empty_input_counterexample:
  "snd (make_crate demo_crate ''lib/foo'' ''gen'' [[]] ''/src'' []) = Some ValueError \<and>
   file_written (fst (make_crate demo_crate ''lib/foo'' ''gen'' [[]] ''/src'' []))
     (lib_fn ''gen'' ''lib/foo'') = Some (lib_rs_header @ ''\<newline>'')"
proof -
  have o: "crate_can_open demo_crate p" for p by (simp add: demo_crate_def)
  have c: "crate_cwd demo_crate = ''/out''" by (simp add: demo_crate_def)
  have b: "lib_rs_body demo_crate ''gen/lib/foo/src'' [[]] [] =
      (lib_rs_header @ ''\<newline>'', Some ValueError)"
    by (simp add: lib_rs_body_def c demo_relpath_empty)
  show ?thesis
    using make_crate_lib [OF o [of "cargo_toml_path ''gen'' ''lib/foo''"]
        o [of "lib_fn ''gen'' ''lib/foo''"], of "[[]]" "''/src''" "[]"]
    by (simp add: demo_lib_dir b)
qed

text \<open>
  C9 as amended.  For every inputs list of non-empty paths passed to \<^verbatim>\<open>make_crate\<close>
  (the two files being writable), the call returns and the generated \<^verbatim>\<open>lib.rs\<close> is its
  fixed header, one \<^verbatim>\<open>pub extern crate\<close> line per dependency and a blank line, then, in
  input order, one \<^verbatim>\<open>mod <basename>;\<close> declaration per input file, a blank line, and, again
  in input order, one \<^verbatim>\<open>pub use <basename>::*;\<close> per input file; a \<^verbatim>\<open>#[path="<rel>"]\<close>
  attribute stands immediately before a \<^verbatim>\<open>mod\<close> declaration exactly when the input's path
  relative to the directory of \<^verbatim>\<open>lib.rs\<close> differs from \<^verbatim>\<open><basename>.rs\<close>.
\<close>

theorem lib_rs_modules:
  assumes \<open>[] \<notin> set inputs\<close>
    and \<open>crate_can_open e (cargo_toml_path gen_dir output)\<close>
    and \<open>crate_can_open e (lib_fn gen_dir output)\<close>
  shows \<open>snd (make_crate e output gen_dir inputs srcroot dep_inputs) = None \<and>
    file_written (fst (make_crate e output gen_dir inputs srcroot dep_inputs))
      (lib_fn gen_dir output) =
    Some (lib_rs_header @
          concat (map (\<lambda>dep. ''pub extern crate '' @ label_to_crate e dep @ '';\<newline>'')
                      dep_inputs) @
          ''\<newline>'' @
          concat (map (\<lambda>i.
            (if projr (relpath (crate_cwd e) i (dirname (lib_fn gen_dir output))) \<noteq>
                splitext_root (basename i) @ ''.rs''
             then ''#[path="'' @
                  projr (relpath (crate_cwd e) i (dirname (lib_fn gen_dir output))) @
                  ''"]\<newline>''
             else []) @
            ''mod '' @ splitext_root (basename i) @ '';\<newline>'') inputs) @
          ''\<newline>'' @
          concat (map (\<lambda>i. ''pub use '' @ splitext_root (basename i) @ ''::*;\<newline>'') inputs))\<close>
  using make_crate_lib [OF assms(2,3), of inputs srcroot dep_inputs]
    write_mods_nonempty [OF assms(1), of e "dirname (lib_fn gen_dir output)"]
  by (simp add: lib_rs_body_def write_dep_crates_concat write_uses_concat)

theorem lib_rs_modules_witness:
  \<open>[] \<notin> set [''gen/lib/foo/src/a.rs'', ''gen/x/b.fidl.rs''] \<and>
   crate_can_open demo_crate (cargo_toml_path ''gen'' ''lib/foo'') \<and>
   crate_can_open demo_crate (lib_fn ''gen'' ''lib/foo'') \<and>
   snd (make_crate demo_crate ''lib/foo'' ''gen'' [''gen/lib/foo/src/a.rs'', ''gen/x/b.fidl.rs'']
          ''/src'' [''//lib/dep'']) = None \<and>
   file_written
     (fst (make_crate demo_crate ''lib/foo'' ''gen'' [''gen/lib/foo/src/a.rs'', ''gen/x/b.fidl.rs'']
             ''/src'' [''//lib/dep'']))
     (lib_fn ''gen'' ''lib/foo'') =
   Some (lib_rs_header @
         ''pub extern crate crate_dep;\<newline>'' @
         ''\<newline>'' @
         ''mod a;\<newline>'' @
         ''#[path="../../../x/b.fidl.rs"]\<newline>'' @
         ''mod b.fidl;\<newline>'' @
         ''\<newline>'' @
         ''pub use a::*;\<newline>'' @
         ''pub use b.fidl::*;\<newline>'')\<close>
proof -
  have n: "[] \<notin> set [''gen/lib/foo/src/a.rs'', ''gen/x/b.fidl.rs'']" by simp
  have o: "crate_can_open demo_crate p" for p by (simp add: demo_crate_def)
  have c: "crate_cwd demo_crate = ''/out''" by (simp add: demo_crate_def)
  have l: "label_to_crate demo_crate ''//lib/dep'' = ''crate_dep''"
    by (simp add: demo_crate_def basename_def)
  show ?thesis
    using n o lib_rs_modules [OF n o [of "cargo_toml_path ''gen'' ''lib/foo''"]
        o [of "lib_fn ''gen'' ''lib/foo''"], of "''/src''" "[''//lib/dep'']"]
    by (simp add: demo_lib_dir c l demo_relpath_a demo_relpath_b demo_stems)
qed

subsection \<open>C10: Cargo.toml depends on the output label only\<close>

text \<open>
  C10.  The \<^verbatim>\<open>Cargo.toml\<close> that \<^verbatim>\<open>make_crate\<close> writes is a function of the output label:
  its name is \<^verbatim>\<open>label_to_crate(output)\<close>, its version is \<^verbatim>\<open>0.1.0\<close>, and its dependencies are
  exactly \<^verbatim>\<open>futures = "0.1"\<close> and \<^verbatim>\<open>tokio-core = "0.1.9"\<close>; two calls with the same output
  and any inputs, dependencies and source root leave the same contents.
\<close>

theorem cargo_toml_depends_on_output_only:
  \<open>file_written (fst (make_crate e output gen_dir inputs srcroot dep_inputs))
     (cargo_toml_path gen_dir output) =
   (if crate_can_open e (cargo_toml_path gen_dir output)
    then Some (''# Autogenerated by //garnet/public/lib/fidl/build/make_crate.py\<newline>'' @
               ''[package]\<newline>'' @
               ''name = "'' @ label_to_crate e output @ ''"\<newline>'' @
               ''version = "0.1.0"\<newline>'' @
               ''\<newline>'' @
               ''[dependencies]\<newline>'' @
               ''futures = "0.1"\<newline>'' @
               ''tokio-core = "0.1.9"\<newline>'')
    else None) \<and>
   file_written (fst (make_crate e output gen_dir inputs srcroot dep_inputs))
     (cargo_toml_path gen_dir output) =
   file_written (fst (make_crate e output gen_dir inputs' srcroot' dep_inputs'))
     (cargo_toml_path gen_dir output)\<close>
  by (simp add: make_crate_cargo cargo_toml_text_def)

theorem cargo_toml_depends_on_output_only_witness:
  \<open>file_written
     (fst (make_crate demo_crate ''lib/foo'' ''gen'' [''gen/x/b.fidl.rs''] ''/src'' [''//lib/dep'']))
     (cargo_toml_path ''gen'' ''lib/foo'') =
   Some (''# Autogenerated by //garnet/public/lib/fidl/build/make_crate.py\<newline>'' @
         ''[package]\<newline>'' @
         ''name = "crate_foo"\<newline>'' @
         ''version = "0.1.0"\<newline>'' @
         ''\<newline>'' @
         ''[dependencies]\<newline>'' @
         ''futures = "0.1"\<newline>'' @
         ''tokio-core = "0.1.9"\<newline>'') \<and>
   file_written
     (fst (make_crate demo_crate ''lib/foo'' ''gen'' [''gen/x/b.fidl.rs''] ''/src'' [''//lib/dep'']))
     (cargo_toml_path ''gen'' ''lib/foo'') =
   file_written (fst (make_crate demo_crate ''lib/foo'' ''gen'' [[]] ''/elsewhere'' []))
     (cargo_toml_path ''gen'' ''lib/foo'')\<close>
proof -
  have o: "crate_can_open demo_crate p" for p by (simp add: demo_crate_def)
  have l: "label_to_crate demo_crate ''lib/foo'' = ''crate_foo''"
    by (simp add: demo_crate_def basename_def)
  note t = cargo_toml_depends_on_output_only [of demo_crate "''lib/foo''" "''gen''"
        "[''gen/x/b.fidl.rs'']" "''/src''" "[''//lib/dep'']" "[[]]" "''/elsewhere''" "[]"]
  show ?thesis
  proof (rule conjI)
    from t [THEN conjunct1] show \<open>file_written
       (fst (make_crate demo_crate ''lib/foo'' ''gen'' [''gen/x/b.fidl.rs''] ''/src''
               [''//lib/dep'']))
       (cargo_toml_path ''gen'' ''lib/foo'') =
     Some (''# Autogenerated by //garnet/public/lib/fidl/build/make_crate.py\<newline>'' @
           ''[package]\<newline>'' @
           ''name = "crate_foo"\<newline>'' @
           ''version = "0.1.0"\<newline>'' @
           ''\<newline>'' @
           ''[dependencies]\<newline>'' @
           ''futures = "0.1"\<newline>'' @
           ''tokio-core = "0.1.9"\<newline>'')\<close>
      by (simp add: o l)
  next
    from t [THEN conjunct2] show "file_written
       (fst (make_crate demo_crate ''lib/foo'' ''gen'' [''gen/x/b.fidl.rs''] ''/src''
               [''//lib/dep'']))
       (cargo_toml_path ''gen'' ''lib/foo'') =
     file_written (fst (make_crate demo_crate ''lib/foo'' ''gen'' [[]] ''/elsewhere'' []))
       (cargo_toml_path ''gen'' ''lib/foo'')" .
  qed
qed

end
